theory Spec2Isabelle
  imports Main
begin

section \<open>The Azure Service Bus node: data model\<close>

text \<open>
  The node has one method, \<open>execute\<close> (AzureMessageBusNode.node.ts, lines 165-266). It reads
  its parameters from the host, opens a Service Bus client, and either sends one message per
  input item or fetches a batch of messages, and closes the client in a \<open>finally\<close> block.

  JSON values are the values of the parameter \<open>messageBody\<close>, of message bodies and of the
  output records. A JavaScript number is modelled as an integer (the code only passes numbers
  on and uses the loop counter as one).
\<close>

datatype jv =
    JNull
  | JBool bool
  | JNum int
  | JStr string
  | JArr "jv list"
  | JObj "(string \<times> jv) list"

text \<open>\<open>INodeExecutionData\<close>: the code only ever builds \<open>{ json: ... }\<close>.\<close>

record node_execution_data =
  json :: jv

text \<open>
  \<open>ServiceBusMessage\<close> is what the sender is given (the code sets \<open>body\<close> only);
  a received message carries the body and the bus's own data, of which the model keeps the
  message id.
\<close>

record service_bus_message =
  body :: jv

record service_bus_received_message = service_bus_message +
  messageId :: string

text \<open>
  Errors. The client library throws JavaScript errors; the code wraps errors in the host
  library's \<open>NodeOperationError(node, error, options)\<close>. The model keeps the arguments the
  constructor is given: the wrapped error and the \<open>itemIndex\<close> option (absent when the call
  passes no options). Where the code passes a string for \<open>error\<close>, the library wraps it as
  \<open>new Error(string)\<close>. The \<open>message\<close> of a \<open>NodeOperationError\<close> is the message of the
  error it wraps.
\<close>

datatype js_error =
    Error string
  | NodeOperationError js_error "nat option"

fun message :: "js_error \<Rightarrow> string" where
  "message (Error m) = m"
| "message (NodeOperationError cause opt) = message cause"

fun context_itemIndex :: "js_error \<Rightarrow> nat option" where
  "context_itemIndex (Error m) = None"
| "context_itemIndex (NodeOperationError cause opt) = opt"

subsection \<open>The host and the bus\<close>

text \<open>
  The host context (\<open>this\<close> of \<open>execute\<close>). \<open>getNodeParameter(name, itemIndex)\<close> is read
  at the type the code casts it to: \<open>as string\<close>, \<open>as number\<close> or \<open>as any\<close>. The host
  resolves every parameter (the node's description gives each a default; the fallback \<open>''\<close>
  of \<open>subscriptionName\<close> is that default), so the three readers are total.
\<close>

record host =
  stringParameter :: "string \<Rightarrow> nat \<Rightarrow> string"
  numberParameter :: "string \<Rightarrow> nat \<Rightarrow> int"
  jsonParameter :: "string \<Rightarrow> nat \<Rightarrow> jv"
  getInputData :: "node_execution_data list"
  continueOnFail :: bool

text \<open>
  The bus, as the run meets it: for every call of the client library the code can make, the
  call's outcome, \<open>Inl\<close> the error it throws or \<open>Inr\<close> what it returns. \<open>sendMessages\<close> is
  keyed by the item the call is made for (the loop makes one call per item), so that one item's
  transmission can fail while another item with an equal body succeeds.
\<close>

record bus =
  newServiceBusClient :: "string \<Rightarrow> js_error + unit"
  createSender :: "string \<Rightarrow> js_error + unit"
  sendMessages :: "nat \<Rightarrow> service_bus_message \<Rightarrow> js_error + unit"
  senderClose :: "js_error + unit"
  createReceiver :: "string \<Rightarrow> string option \<Rightarrow> js_error + unit"
  peekMessages :: "int \<Rightarrow> js_error + service_bus_received_message list"
  receiveMessages :: "int \<Rightarrow> int \<Rightarrow> js_error + service_bus_received_message list"
  completeMessage :: "service_bus_received_message \<Rightarrow> js_error + unit"
  abandonMessage :: "service_bus_received_message \<Rightarrow> js_error + unit"
  deadLetterMessage :: "service_bus_received_message \<Rightarrow> js_error + unit"
  receiverClose :: "js_error + unit"
  clientClose :: "js_error + unit"

text \<open>The calls a run makes, in order: parameter reads of the host and calls of the bus.\<close>

datatype event =
    GetNodeParameter string nat
  | NewServiceBusClient string
  | CreateSender string
  | SendMessages service_bus_message
  | SenderClose
  | CreateReceiver string "string option"
  | PeekMessages int
  | ReceiveMessages int int
  | CompleteMessage service_bus_received_message
  | AbandonMessage service_bus_received_message
  | DeadLetterMessage service_bus_received_message
  | ReceiverClose
  | ClientClose

subsection \<open>Computations: a log of calls and an outcome\<close>

text \<open>
  A computation yields the calls it made and either the error it threw (\<open>Inl\<close>) or its value.
  \<open>bind_io\<close> is sequencing (an error skips the rest), \<open>try_catch\<close> and \<open>try_finally\<close> are
  the JavaScript statements: the \<open>finally\<close> block always runs, and an error it throws
  replaces the outcome of the block it guards.
\<close>

type_synonym 'a io = "event list \<times> (js_error + 'a)"

definition ret :: "'a \<Rightarrow> 'a io" where
  "ret x = ([], Inr x)"

definition throw :: "js_error \<Rightarrow> 'a io" where
  "throw e = ([], Inl e)"

definition call :: "event \<Rightarrow> js_error + 'a \<Rightarrow> 'a io" where
  "call ev outcome = ([ev], outcome)"

definition bind_io :: "'a io \<Rightarrow> ('a \<Rightarrow> 'b io) \<Rightarrow> 'b io" where
  "bind_io m f =
     (case snd m of
        Inl e \<Rightarrow> (fst m, Inl e)
      | Inr x \<Rightarrow> (fst m @ fst (f x), snd (f x)))"

definition try_catch :: "'a io \<Rightarrow> (js_error \<Rightarrow> 'a io) \<Rightarrow> 'a io" where
  "try_catch m handler =
     (case snd m of
        Inl e \<Rightarrow> (fst m @ fst (handler e), snd (handler e))
      | Inr x \<Rightarrow> m)"

definition try_finally :: "'a io \<Rightarrow> unit io \<Rightarrow> 'a io" where
  "try_finally m cleanup =
     (case snd cleanup of
        Inl e \<Rightarrow> (fst m @ fst cleanup, Inl e)
      | Inr u \<Rightarrow> (fst m @ fst cleanup, snd m))"

definition getStringParameter :: "host \<Rightarrow> string \<Rightarrow> nat \<Rightarrow> string io" where
  "getStringParameter h name i = call (GetNodeParameter name i) (Inr (stringParameter h name i))"

definition getNumberParameter :: "host \<Rightarrow> string \<Rightarrow> nat \<Rightarrow> int io" where
  "getNumberParameter h name i = call (GetNodeParameter name i) (Inr (numberParameter h name i))"

definition getJsonParameter :: "host \<Rightarrow> string \<Rightarrow> nat \<Rightarrow> jv io" where
  "getJsonParameter h name i = call (GetNodeParameter name i) (Inr (jsonParameter h name i))"

section \<open>The method execute\<close>

subsection \<open>Send: the loop over the input items (lines 182-217)\<close>

definition success_record :: "nat \<Rightarrow> jv \<Rightarrow> node_execution_data" where
  "success_record itemIndex messageBody =
     \<lparr>json = JObj [(''success'', JBool True),
                   (''itemIndex'', JNum (int itemIndex)),
                   (''messageSent'', messageBody)]\<rparr>"

definition failure_record :: "nat \<Rightarrow> js_error \<Rightarrow> node_execution_data" where
  "failure_record itemIndex error =
     \<lparr>json = JObj [(''success'', JBool False),
                   (''itemIndex'', JNum (int itemIndex)),
                   (''error'', JStr (message error))]\<rparr>"

text \<open>One turn of the loop: the inner \<open>try\<close> and its \<open>catch\<close>, giving the new \<open>returnData\<close>.\<close>

definition send_item ::
  "host \<Rightarrow> bus \<Rightarrow> nat \<Rightarrow> node_execution_data list \<Rightarrow> node_execution_data list io" where
  "send_item h b itemIndex returnData =
     try_catch
       (bind_io (getJsonParameter h ''messageBody'' itemIndex) (\<lambda>messageBody.
        bind_io (call (SendMessages \<lparr>body = messageBody\<rparr>)
                   (sendMessages b itemIndex \<lparr>body = messageBody\<rparr>)) (\<lambda>u.
        ret (returnData @ [success_record itemIndex messageBody]))))
       (\<lambda>error.
          if continueOnFail h
          then ret (returnData @ [failure_record itemIndex error])
          else throw (NodeOperationError error (Some itemIndex)))"

function send_items ::
  "host \<Rightarrow> bus \<Rightarrow> nat \<Rightarrow> node_execution_data list \<Rightarrow> node_execution_data list io" where
  "send_items h b itemIndex returnData =
     (if itemIndex < length (getInputData h)
      then bind_io (send_item h b itemIndex returnData) (send_items h b (Suc itemIndex))
      else ret returnData)"
  by pat_completeness auto
termination
  by (relation "measure (\<lambda>(h, b, itemIndex, returnData). length (getInputData h) - itemIndex)")
     auto

declare send_items.simps [simp del]

definition send_branch ::
  "host \<Rightarrow> bus \<Rightarrow> string \<Rightarrow> node_execution_data list io" where
  "send_branch h b queueOrTopic =
     bind_io (call (CreateSender queueOrTopic) (createSender b queueOrTopic)) (\<lambda>sender.
     bind_io (send_items h b 0 []) (\<lambda>returnData.
     bind_io (call SenderClose (senderClose b)) (\<lambda>u.
     ret returnData)))"

subsection \<open>Receive (lines 221-258)\<close>

text \<open>\<open>subscriptionName ? createReceiver(q, subscriptionName) : createReceiver(q)\<close>:
  a string is truthy when it is not empty.\<close>

definition open_receiver :: "bus \<Rightarrow> string \<Rightarrow> string \<Rightarrow> unit io" where
  "open_receiver b queueOrTopic subscriptionName =
     (if subscriptionName \<noteq> []
      then call (CreateReceiver queueOrTopic (Some subscriptionName))
             (createReceiver b queueOrTopic (Some subscriptionName))
      else call (CreateReceiver queueOrTopic None) (createReceiver b queueOrTopic None))"

text \<open>The body of \<open>for (const msg of messages)\<close>: at most one action for the message.\<close>

definition post_process :: "bus \<Rightarrow> string \<Rightarrow> service_bus_received_message \<Rightarrow> unit io" where
  "post_process b postProcess msg =
     (if postProcess = ''complete'' then call (CompleteMessage msg) (completeMessage b msg)
      else if postProcess = ''abandon'' then call (AbandonMessage msg) (abandonMessage b msg)
      else if postProcess = ''deadLetter''
        then call (DeadLetterMessage msg) (deadLetterMessage b msg)
      else ret ())"

fun post_process_all ::
  "bus \<Rightarrow> string \<Rightarrow> service_bus_received_message list \<Rightarrow> unit io" where
  "post_process_all b postProcess [] = ret ()"
| "post_process_all b postProcess (msg # messages) =
     bind_io (post_process b postProcess msg) (\<lambda>u. post_process_all b postProcess messages)"

definition receive_record ::
  "string \<Rightarrow> string \<Rightarrow> service_bus_received_message list \<Rightarrow> node_execution_data" where
  "receive_record queueOrTopic subscriptionName messages =
     \<lparr>json = JObj [(''success'', JBool True),
                   (''operation'', JStr ''receive''),
                   (''queueOrTopic'', JStr queueOrTopic),
                   (''subscriptionName'', JStr subscriptionName),
                   (''messagesReceived'', JArr (map body messages))]\<rparr>"

definition receive_branch ::
  "host \<Rightarrow> bus \<Rightarrow> string \<Rightarrow> string \<Rightarrow> node_execution_data list io" where
  "receive_branch h b queueOrTopic subscriptionName =
     bind_io (getNumberParameter h ''maxMessages'' 0) (\<lambda>maxMessages.
     bind_io (getNumberParameter h ''maxWaitTime'' 0) (\<lambda>maxWaitTime.
     bind_io (getStringParameter h ''postProcess'' 0) (\<lambda>postProcess.
     bind_io (getStringParameter h ''receiveMode'' 0) (\<lambda>receiveMode.
     bind_io
       (if receiveMode = ''peek''
        then
          bind_io (open_receiver b queueOrTopic subscriptionName) (\<lambda>receiver.
          bind_io (call (PeekMessages maxMessages) (peekMessages b maxMessages)) (\<lambda>messages.
          bind_io (call ReceiverClose (receiverClose b)) (\<lambda>u.
          ret messages)))
        else
          bind_io (open_receiver b queueOrTopic subscriptionName) (\<lambda>receiver.
          bind_io (call (ReceiveMessages maxMessages maxWaitTime)
                     (receiveMessages b maxMessages maxWaitTime)) (\<lambda>messages.
          bind_io (post_process_all b postProcess messages) (\<lambda>u.
          bind_io (call ReceiverClose (receiverClose b)) (\<lambda>u.
          ret messages)))))
       (\<lambda>messages.
     ret [receive_record queueOrTopic subscriptionName messages])))))"

subsection \<open>The whole method (lines 165-266)\<close>

text \<open>The text of the outer \<open>catch\<close>; the two letters outside ASCII are written by their
  code units (c with cedilla 0xE7, a with tilde 0xE3).\<close>

definition operation_error_text :: "string \<Rightarrow> js_error \<Rightarrow> string" where
  "operation_error_text operation error =
     ''Erro ao executar a opera'' @ [CHR 0xE7, CHR 0xE3] @ ''o '' @ [CHR 0x27] @ operation
       @ [CHR 0x27] @ '': '' @ message error"

definition execute :: "host \<Rightarrow> bus \<Rightarrow> node_execution_data list list io" where
  "execute h b =
     bind_io (getStringParameter h ''connectionString'' 0) (\<lambda>connectionString.
     bind_io (getStringParameter h ''queueOrTopic'' 0) (\<lambda>queueOrTopic.
     bind_io (getStringParameter h ''subscriptionName'' 0) (\<lambda>subscriptionName.
     bind_io (getStringParameter h ''operation'' 0) (\<lambda>operation.
     bind_io (call (NewServiceBusClient connectionString)
                (newServiceBusClient b connectionString)) (\<lambda>sbClient.
     bind_io
       (try_finally
          (try_catch
             (if operation = ''send'' then send_branch h b queueOrTopic
              else if operation = ''receive''
                then receive_branch h b queueOrTopic subscriptionName
              else ret [])
             (\<lambda>error.
                throw (NodeOperationError (Error (operation_error_text operation error)) None)))
          (call ClientClose (clientClose b)))
       (\<lambda>returnData.
     ret [returnData]))))))"

section \<open>Vocabulary for the properties\<close>

text \<open>The four parameters every run reads first, and the four the receive branch reads.\<close>

definition common_reads :: "event list" where
  "common_reads =
     [GetNodeParameter ''connectionString'' 0, GetNodeParameter ''queueOrTopic'' 0,
      GetNodeParameter ''subscriptionName'' 0, GetNodeParameter ''operation'' 0]"

definition receive_reads :: "event list" where
  "receive_reads =
     [GetNodeParameter ''maxMessages'' 0, GetNodeParameter ''maxWaitTime'' 0,
      GetNodeParameter ''postProcess'' 0, GetNodeParameter ''receiveMode'' 0]"

text \<open>The calls one turn of the send loop makes, the outcome of its transmission, and the
  record the turn appends when the run continues on failure.\<close>

definition item_calls :: "host \<Rightarrow> nat \<Rightarrow> event list" where
  "item_calls h i =
     [GetNodeParameter ''messageBody'' i,
      SendMessages \<lparr>body = jsonParameter h ''messageBody'' i\<rparr>]"

definition item_outcome :: "host \<Rightarrow> bus \<Rightarrow> nat \<Rightarrow> js_error + unit" where
  "item_outcome h b i = sendMessages b i \<lparr>body = jsonParameter h ''messageBody'' i\<rparr>"

definition item_record :: "host \<Rightarrow> bus \<Rightarrow> nat \<Rightarrow> node_execution_data" where
  "item_record h b i =
     (case item_outcome h b i of
        Inl e \<Rightarrow> failure_record i e
      | Inr u \<Rightarrow> success_record i (jsonParameter h ''messageBody'' i))"

text \<open>The body of the outer \<open>try\<close>, with the parameters read off the host.\<close>

definition try_body :: "host \<Rightarrow> bus \<Rightarrow> node_execution_data list io" where
  "try_body h b =
     (if stringParameter h ''operation'' 0 = ''send''
      then send_branch h b (stringParameter h ''queueOrTopic'' 0)
      else if stringParameter h ''operation'' 0 = ''receive''
        then receive_branch h b (stringParameter h ''queueOrTopic'' 0)
               (stringParameter h ''subscriptionName'' 0)
      else ret [])"

text \<open>The receive branch: how the receiver is qualified, the fetch of the configured mode,
  and the call and outcome of the configured post-processing action.\<close>

definition subscription_of :: "string \<Rightarrow> string option" where
  "subscription_of subscriptionName =
     (if subscriptionName \<noteq> [] then Some subscriptionName else None)"

definition fetch :: "host \<Rightarrow> bus \<Rightarrow> js_error + service_bus_received_message list" where
  "fetch h b =
     (if stringParameter h ''receiveMode'' 0 = ''peek''
      then peekMessages b (numberParameter h ''maxMessages'' 0)
      else receiveMessages b (numberParameter h ''maxMessages'' 0)
             (numberParameter h ''maxWaitTime'' 0))"

definition post_process_call :: "string \<Rightarrow> service_bus_received_message \<Rightarrow> event" where
  "post_process_call postProcess msg =
     (if postProcess = ''complete'' then CompleteMessage msg
      else if postProcess = ''abandon'' then AbandonMessage msg
      else DeadLetterMessage msg)"

definition post_process_outcome ::
  "bus \<Rightarrow> string \<Rightarrow> service_bus_received_message \<Rightarrow> js_error + unit" where
  "post_process_outcome b postProcess msg =
     (if postProcess = ''complete'' then completeMessage b msg
      else if postProcess = ''abandon'' then abandonMessage b msg
      else deadLetterMessage b msg)"

text \<open>Kinds of calls: the calls that open or close a handle, the post-processing actions,
  the receiver openings and the parameter reads.\<close>

fun handle_call :: "event \<Rightarrow> bool" where
  "handle_call (NewServiceBusClient cs) = True"
| "handle_call (CreateSender q) = True"
| "handle_call SenderClose = True"
| "handle_call (CreateReceiver q s) = True"
| "handle_call ReceiverClose = True"
| "handle_call ClientClose = True"
| "handle_call ev = False"


fun is_CreateReceiver :: "event \<Rightarrow> bool" where
  "is_CreateReceiver (CreateReceiver q s) = True"
| "is_CreateReceiver ev = False"


subsection \<open>Concrete hosts and buses\<close>

text \<open>A host whose \<open>messageBody\<close> for item \<open>i\<close> is the \<open>i\<close>-th of the given bodies, with one
  input item per body; a host configured for receiving from the topic \<open>events\<close>; a bus on
  which every call succeeds and the destination holds the given messages; and that bus with
  the transmission of one item failing.\<close>

definition example_host :: "string \<Rightarrow> jv list \<Rightarrow> bool \<Rightarrow> host" where
  "example_host operation bodies cont =
     \<lparr>stringParameter = (\<lambda>name i.
          if name = ''connectionString'' then ''Endpoint=sb://example/''
          else if name = ''queueOrTopic'' then ''orders''
          else if name = ''operation'' then operation
          else []),
       numberParameter = (\<lambda>name i. 0),
       jsonParameter = (\<lambda>name i.
          if name = ''messageBody'' \<and> i < length bodies then bodies ! i else JObj []),
       getInputData = map (\<lambda>v. \<lparr>json = v\<rparr>) bodies,
       continueOnFail = cont\<rparr>"

definition receive_host :: "string \<Rightarrow> string \<Rightarrow> string \<Rightarrow> host" where
  "receive_host subscriptionName receiveMode postProcess =
     \<lparr>stringParameter = (\<lambda>name i.
          if name = ''connectionString'' then ''Endpoint=sb://example/''
          else if name = ''queueOrTopic'' then ''events''
          else if name = ''subscriptionName'' then subscriptionName
          else if name = ''operation'' then ''receive''
          else if name = ''postProcess'' then postProcess
          else if name = ''receiveMode'' then receiveMode
          else []),
       numberParameter = (\<lambda>name i.
          if name = ''maxMessages'' then 5 else if name = ''maxWaitTime'' then 100 else 0),
       jsonParameter = (\<lambda>name i. JObj []),
       getInputData = [\<lparr>json = JObj []\<rparr>],
       continueOnFail = False\<rparr>"

definition reliable_bus :: "service_bus_received_message list \<Rightarrow> bus" where
  "reliable_bus available =
     \<lparr>newServiceBusClient = (\<lambda>cs. Inr ()),
       createSender = (\<lambda>q. Inr ()),
       sendMessages = (\<lambda>i m. Inr ()),
       senderClose = Inr (),
       createReceiver = (\<lambda>q s. Inr ()),
       peekMessages = (\<lambda>n. Inr (take (nat n) available)),
       receiveMessages = (\<lambda>n w. Inr (take (nat n) available)),
       completeMessage = (\<lambda>m. Inr ()),
       abandonMessage = (\<lambda>m. Inr ()),
       deadLetterMessage = (\<lambda>m. Inr ()),
       receiverClose = Inr (),
       clientClose = Inr ()\<rparr>"

definition send_failing_bus :: "nat \<Rightarrow> js_error \<Rightarrow> bus" where
  "send_failing_bus k e =
     (reliable_bus [])\<lparr>sendMessages := (\<lambda>i m. if i = k then Inl e else Inr ())\<rparr>"



section \<open>Lemmas on the computations\<close>

lemma bind_io_Inr: "bind_io (l, Inr x) f = (l @ fst (f x), snd (f x))"
  by (simp add: bind_io_def)

lemma bind_io_Inl: "bind_io (l, Inl e) f = (l, Inl e)"
  by (simp add: bind_io_def)

lemma try_catch_Inr: "try_catch (l, Inr x) handler = (l, Inr x)"
  by (simp add: try_catch_def)

lemma try_catch_Inl: "try_catch (l, Inl e) handler = (l @ fst (handler e), snd (handler e))"
  by (simp add: try_catch_def)

lemmas io_simps =
  bind_io_Inr bind_io_Inl try_catch_Inr try_catch_Inl ret_def throw_def call_def
  getStringParameter_def getNumberParameter_def getJsonParameter_def

lemma map_upt_update: "k < n \<Longrightarrow> (map f [0..<n])[k := v] = map (f(k := v)) [0..<n]"
  by (rule nth_equalityI) (auto simp: nth_list_update)

subsection \<open>The send loop\<close>

text \<open>One turn makes its two calls and either extends \<open>returnData\<close> or throws.\<close>

lemma send_item_eq:
  "send_item h b i rd =
     (item_calls h i,
      case item_outcome h b i of
        Inr u \<Rightarrow> Inr (rd @ [success_record i (jsonParameter h ''messageBody'' i)])
      | Inl e \<Rightarrow> if continueOnFail h then Inr (rd @ [failure_record i e])
                 else Inl (NodeOperationError e (Some i)))"
  by (simp add: send_item_def item_calls_def item_outcome_def io_simps split: sum.splits)

text \<open>With continue-on-failure the loop visits every item.\<close>

lemma send_items_continue:
  "continueOnFail h \<Longrightarrow> i \<le> length (getInputData h) \<Longrightarrow>
   send_items h b i rd =
     (concat (map (item_calls h) [i..<length (getInputData h)]),
      Inr (rd @ map (item_record h b) [i..<length (getInputData h)]))"
proof (induction h b i rd rule: send_items.induct)
  case (1 h b itemIndex returnData)
  show ?case
  proof (cases "itemIndex < length (getInputData h)")
    case True
    then show ?thesis
      using 1
      by (subst send_items.simps)
        (simp add: send_item_eq item_record_def io_simps upt_conv_Cons split: sum.splits)
  next
    case False
    then show ?thesis
      using 1 by (subst send_items.simps) (simp add: io_simps)
  qed
qed

text \<open>When every remaining transmission succeeds, so does the loop, whatever the flag.\<close>

lemma send_items_all_ok:
  "\<forall>j. i \<le> j \<and> j < length (getInputData h) \<longrightarrow> item_outcome h b j = Inr () \<Longrightarrow>
   i \<le> length (getInputData h) \<Longrightarrow>
   send_items h b i rd =
     (concat (map (item_calls h) [i..<length (getInputData h)]),
      Inr (rd @ map (\<lambda>j. success_record j (jsonParameter h ''messageBody'' j))
                   [i..<length (getInputData h)]))"
proof (induction h b i rd rule: send_items.induct)
  case (1 h b itemIndex returnData)
  show ?case
  proof (cases "itemIndex < length (getInputData h)")
    case True
    then show ?thesis
      using 1
      by (subst send_items.simps)
        (simp add: send_item_eq io_simps upt_conv_Cons split: sum.splits)
  next
    case False
    then show ?thesis
      using 1 by (subst send_items.simps) (simp add: io_simps)
  qed
qed

text \<open>Without continue-on-failure the loop stops at the first failing item.\<close>

lemma send_items_abort:
  "\<not> continueOnFail h \<Longrightarrow> k < length (getInputData h) \<Longrightarrow> i \<le> k \<Longrightarrow>
   \<forall>j. i \<le> j \<and> j < k \<longrightarrow> item_outcome h b j = Inr () \<Longrightarrow>
   item_outcome h b k = Inl e \<Longrightarrow>
   send_items h b i rd =
     (concat (map (item_calls h) [i..<Suc k]), Inl (NodeOperationError e (Some k)))"
proof (induction h b i rd rule: send_items.induct)
  case (1 h b itemIndex returnData)
  show ?case
  proof (cases "itemIndex = k")
    case True
    then show ?thesis
      using 1(2-)
      by (subst send_items.simps) (simp add: send_item_eq io_simps split: sum.splits)
  next
    case False
    then show ?thesis
      using 1
      by (subst send_items.simps)
        (simp add: send_item_eq io_simps upt_conv_Cons split: sum.splits)
  qed
qed

text \<open>Whatever happens, the loop's calls are the calls of an initial stretch of the items.\<close>

lemma send_items_calls:
  "i \<le> length (getInputData h) \<Longrightarrow>
   \<exists>K. i \<le> K \<and> K \<le> length (getInputData h) \<and>
       fst (send_items h b i rd) = concat (map (item_calls h) [i..<K])"
proof (induction h b i rd rule: send_items.induct)
  case (1 h b itemIndex returnData)
  show ?case
  proof (cases "itemIndex < length (getInputData h)")
    case False
    then show ?thesis
      using 1(2) by (subst send_items.simps) (auto simp: io_simps intro: exI[of _ itemIndex])
  next
    case True
    show ?thesis
    proof (cases "snd (send_item h b itemIndex returnData)")
      case (Inl e)
      then have "fst (send_items h b itemIndex returnData) = item_calls h itemIndex"
        using True by (subst send_items.simps) (simp add: bind_io_def send_item_eq)
      then show ?thesis
        using True by (intro exI[of _ "Suc itemIndex"]) simp
    next
      case (Inr rd')
      from 1(1)[OF True, of rd'] True
      obtain K where K: "Suc itemIndex \<le> K" "K \<le> length (getInputData h)"
        "fst (send_items h b (Suc itemIndex) rd') = concat (map (item_calls h) [Suc itemIndex..<K])"
        by auto
      have "fst (send_items h b itemIndex returnData)
          = item_calls h itemIndex @ fst (send_items h b (Suc itemIndex) rd')"
        using True Inr by (subst send_items.simps) (simp add: bind_io_def send_item_eq)
      then show ?thesis
        using K by (intro exI[of _ K]) (simp add: upt_conv_Cons)
    qed
  qed
qed

lemma send_items_fails:
  assumes "\<not> continueOnFail h" and "k < length (getInputData h)"
    and "item_outcome h b k = Inl e"
  shows "\<exists>e'. snd (send_items h b 0 rd) = Inl e'"
proof -
  define k' where "k' = (LEAST j. \<exists>e. item_outcome h b j = Inl e)"
  have ex: "\<exists>e. item_outcome h b k = Inl e"
    using assms(3) by blast
  then have "\<exists>e. item_outcome h b k' = Inl e"
    unfolding k'_def by (rule LeastI)
  then obtain e' where e': "item_outcome h b k' = Inl e'"
    by blast
  have le: "k' \<le> k"
    unfolding k'_def using ex by (rule Least_le)
  have before: "\<forall>j. 0 \<le> j \<and> j < k' \<longrightarrow> item_outcome h b j = Inr ()"
  proof (intro allI impI)
    fix j
    assume "0 \<le> j \<and> j < k'"
    then have "\<not> (\<exists>e. item_outcome h b j = Inl e)"
      unfolding k'_def using not_less_Least by blast
    then show "item_outcome h b j = Inr ()"
      by (cases "item_outcome h b j") auto
  qed
  have "send_items h b 0 rd =
     (concat (map (item_calls h) [0..<Suc k']), Inl (NodeOperationError e' (Some k')))"
    using assms(1,2) le before e' by (intro send_items_abort) auto
  then show ?thesis
    by simp
qed

lemma item_record_other:
  "i \<noteq> k \<Longrightarrow>
   item_record h (b\<lparr>sendMessages := (sendMessages b)(k := f)\<rparr>) i = item_record h b i"
  by (simp add: item_record_def item_outcome_def)

lemma item_record_failed:
  "item_outcome h b i = Inl e \<Longrightarrow> item_record h b i = failure_record i e"
  by (simp add: item_record_def)

subsection \<open>The branches and the whole method\<close>

lemma send_branch_eq:
  "send_branch h b q =
     (CreateSender q #
        (case createSender b q of
           Inl e \<Rightarrow> []
         | Inr u \<Rightarrow> fst (send_items h b 0 []) @
             (case snd (send_items h b 0 []) of Inl e \<Rightarrow> [] | Inr rd \<Rightarrow> [SenderClose])),
      case createSender b q of
        Inl e \<Rightarrow> Inl e
      | Inr u \<Rightarrow>
         (case snd (send_items h b 0 []) of
            Inl e \<Rightarrow> Inl e
          | Inr rd \<Rightarrow> (case senderClose b of Inl e \<Rightarrow> Inl e | Inr u \<Rightarrow> Inr rd)))"
  by (simp add: send_branch_def io_simps bind_io_def split: sum.splits)

lemma open_receiver_eq:
  "open_receiver b q sub =
     ([CreateReceiver q (subscription_of sub)], createReceiver b q (subscription_of sub))"
  by (simp add: open_receiver_def subscription_of_def call_def)

lemma post_process_eq:
  "post_process b pp msg =
     (if pp = ''complete'' \<or> pp = ''abandon'' \<or> pp = ''deadLetter''
      then ([post_process_call pp msg], post_process_outcome b pp msg)
      else ([], Inr ()))"
  by (simp add: post_process_def post_process_call_def post_process_outcome_def io_simps)

lemma post_process_all_ok:
  "pp = ''complete'' \<or> pp = ''abandon'' \<or> pp = ''deadLetter'' \<Longrightarrow>
   \<forall>m\<in>set msgs. post_process_outcome b pp m = Inr () \<Longrightarrow>
   post_process_all b pp msgs = (map (post_process_call pp) msgs, Inr ())"
  by (induction msgs) (auto simp: post_process_eq bind_io_def ret_def)

lemma receive_branch_eq:
  "receive_branch h b q sub =
    (receive_reads @ CreateReceiver q (subscription_of sub) #
      (case createReceiver b q (subscription_of sub) of
         Inl e \<Rightarrow> []
       | Inr u \<Rightarrow>
          (if stringParameter h ''receiveMode'' 0 = ''peek''
           then PeekMessages (numberParameter h ''maxMessages'' 0) #
             (case fetch h b of Inl e \<Rightarrow> [] | Inr msgs \<Rightarrow> [ReceiverClose])
           else ReceiveMessages (numberParameter h ''maxMessages'' 0)
                  (numberParameter h ''maxWaitTime'' 0) #
             (case fetch h b of
                Inl e \<Rightarrow> []
              | Inr msgs \<Rightarrow>
                 fst (post_process_all b (stringParameter h ''postProcess'' 0) msgs) @
                 (case snd (post_process_all b (stringParameter h ''postProcess'' 0) msgs) of
                    Inl e \<Rightarrow> [] | Inr u \<Rightarrow> [ReceiverClose])))),
     case createReceiver b q (subscription_of sub) of
       Inl e \<Rightarrow> Inl e
     | Inr u \<Rightarrow>
        (case fetch h b of
           Inl e \<Rightarrow> Inl e
         | Inr msgs \<Rightarrow>
            (case (if stringParameter h ''receiveMode'' 0 = ''peek'' then Inr ()
                   else snd (post_process_all b (stringParameter h ''postProcess'' 0) msgs)) of
               Inl e \<Rightarrow> Inl e
             | Inr u \<Rightarrow>
                (case receiverClose b of
                   Inl e \<Rightarrow> Inl e
                 | Inr u \<Rightarrow> Inr [receive_record q sub msgs]))))"
  by (simp add: receive_branch_def open_receiver_eq receive_reads_def fetch_def io_simps
      bind_io_def split: sum.splits)

text \<open>The method: the reads, the client, the body of the \<open>try\<close>, the release of the client;
  the release's error first, then the body's error wrapped by the \<open>catch\<close>.\<close>

lemma execute_eq:
  "execute h b =
    (common_reads @ NewServiceBusClient (stringParameter h ''connectionString'' 0) #
       (case newServiceBusClient b (stringParameter h ''connectionString'' 0) of
          Inl e \<Rightarrow> []
        | Inr u \<Rightarrow> fst (try_body h b) @ [ClientClose]),
     case newServiceBusClient b (stringParameter h ''connectionString'' 0) of
       Inl e \<Rightarrow> Inl e
     | Inr u \<Rightarrow>
        (case clientClose b of
           Inl e' \<Rightarrow> Inl e'
         | Inr u \<Rightarrow>
            (case snd (try_body h b) of
               Inl e \<Rightarrow> Inl (NodeOperationError
                          (Error (operation_error_text (stringParameter h ''operation'' 0) e)) None)
             | Inr rd \<Rightarrow> Inr [rd])))"
  by (simp add: execute_def try_body_def common_reads_def io_simps try_finally_def bind_io_def
      try_catch_def split: sum.splits)

lemma execute_send_eq:
  assumes "stringParameter h ''operation'' 0 = ''send''"
    and "newServiceBusClient b (stringParameter h ''connectionString'' 0) = Inr ()"
    and "createSender b (stringParameter h ''queueOrTopic'' 0) = Inr ()"
  shows "execute h b =
    (common_reads @ [NewServiceBusClient (stringParameter h ''connectionString'' 0),
               CreateSender (stringParameter h ''queueOrTopic'' 0)]
       @ fst (send_items h b 0 [])
       @ (case snd (send_items h b 0 []) of Inl e \<Rightarrow> [] | Inr rd \<Rightarrow> [SenderClose])
       @ [ClientClose],
     case clientClose b of
       Inl e' \<Rightarrow> Inl e'
     | Inr u \<Rightarrow>
        (case snd (send_items h b 0 []) of
           Inl e \<Rightarrow> Inl (NodeOperationError (Error (operation_error_text ''send'' e)) None)
         | Inr rd \<Rightarrow>
            (case senderClose b of
               Inl e \<Rightarrow> Inl (NodeOperationError (Error (operation_error_text ''send'' e)) None)
             | Inr u \<Rightarrow> Inr [rd])))"
  using assms by (simp add: execute_eq try_body_def send_branch_eq split: sum.splits)

lemma execute_send_continue:
  assumes "stringParameter h ''operation'' 0 = ''send''"
    and "continueOnFail h"
    and "newServiceBusClient b (stringParameter h ''connectionString'' 0) = Inr ()"
    and "createSender b (stringParameter h ''queueOrTopic'' 0) = Inr ()"
    and "senderClose b = Inr ()"
    and "clientClose b = Inr ()"
  shows "execute h b =
    (common_reads @ [NewServiceBusClient (stringParameter h ''connectionString'' 0),
               CreateSender (stringParameter h ''queueOrTopic'' 0)]
       @ concat (map (item_calls h) [0..<length (getInputData h)])
       @ [SenderClose, ClientClose],
     Inr [map (item_record h b) [0..<length (getInputData h)]])"
  using assms send_items_continue[of h 0 b "[]"] by (simp add: execute_send_eq)

lemma execute_send_abort:
  assumes "stringParameter h ''operation'' 0 = ''send''"
    and "\<not> continueOnFail h"
    and "newServiceBusClient b (stringParameter h ''connectionString'' 0) = Inr ()"
    and "createSender b (stringParameter h ''queueOrTopic'' 0) = Inr ()"
    and "k < length (getInputData h)"
    and "\<forall>j<k. item_outcome h b j = Inr ()"
    and "item_outcome h b k = Inl e"
  shows "execute h b =
    (common_reads @ [NewServiceBusClient (stringParameter h ''connectionString'' 0),
               CreateSender (stringParameter h ''queueOrTopic'' 0)]
       @ concat (map (item_calls h) [0..<Suc k]) @ [ClientClose],
     case clientClose b of
       Inl e' \<Rightarrow> Inl e'
     | Inr u \<Rightarrow> Inl (NodeOperationError (Error (operation_error_text ''send'' e)) None))"
proof -
  have "send_items h b 0 [] =
     (concat (map (item_calls h) [0..<Suc k]), Inl (NodeOperationError e (Some k)))"
    using assms(2,5,6,7) by (intro send_items_abort) simp_all
  then show ?thesis
    using assms(1,3,4)
    by (simp add: execute_send_eq operation_error_text_def split: sum.splits)
qed

section \<open>Send\<close>

text \<open>
  Claim C1. A send run over \<open>N\<close> input items in which no call of the bus fails returns
  exactly \<open>N\<close> output records, the record at position \<open>i\<close> being
  \<open>{success: true, itemIndex: i, messageSent: body of item i}\<close>, in input order. This holds
  whether or not continue-on-failure is set, so in particular when it is disabled.
\<close>

theorem send_all_succeed_records:
  assumes "stringParameter h ''operation'' 0 = ''send''"
    and "newServiceBusClient b (stringParameter h ''connectionString'' 0) = Inr ()"
    and "createSender b (stringParameter h ''queueOrTopic'' 0) = Inr ()"
    and "\<forall>i<length (getInputData h).
           sendMessages b i \<lparr>body = jsonParameter h ''messageBody'' i\<rparr> = Inr ()"
    and "senderClose b = Inr ()"
    and "clientClose b = Inr ()"
  shows "snd (execute h b) =
     Inr [map (\<lambda>i. \<lparr>json = JObj [(''success'', JBool True),
                                  (''itemIndex'', JNum (int i)),
                                  (''messageSent'', jsonParameter h ''messageBody'' i)]\<rparr>)
            [0..<length (getInputData h)]]"
proof -
  have "\<forall>j. 0 \<le> j \<and> j < length (getInputData h) \<longrightarrow> item_outcome h b j = Inr ()"
    using assms(4) by (simp add: item_outcome_def)
  then have "snd (send_items h b 0 []) =
      Inr (map (\<lambda>j. success_record j (jsonParameter h ''messageBody'' j))
             [0..<length (getInputData h)])"
    using send_items_all_ok[of 0 h b "[]"] by simp
  then show ?thesis
    using assms by (simp add: execute_send_eq success_record_def)
qed

theorem send_all_succeed_records_witness:
  "\<not> continueOnFail (example_host ''send'' [JStr ''a'', JNum 2, JObj [(''k'', JNull)]] False)
   \<and> snd (execute (example_host ''send'' [JStr ''a'', JNum 2, JObj [(''k'', JNull)]] False)
            (reliable_bus [])) =
     Inr [[\<lparr>json = JObj [(''success'', JBool True), (''itemIndex'', JNum 0),
                         (''messageSent'', JStr ''a'')]\<rparr>,
           \<lparr>json = JObj [(''success'', JBool True), (''itemIndex'', JNum 1),
                         (''messageSent'', JNum 2)]\<rparr>,
           \<lparr>json = JObj [(''success'', JBool True), (''itemIndex'', JNum 2),
                         (''messageSent'', JObj [(''k'', JNull)])]\<rparr>]]"
  using send_all_succeed_records
    [of "example_host ''send'' [JStr ''a'', JNum 2, JObj [(''k'', JNull)]] False" "reliable_bus []"]
  by (simp add: example_host_def reliable_bus_def upt_conv_Cons)

text \<open>
  Claim C2. In a send run over \<open>N\<close> items with continue-on-failure set, in which the bus calls
  other than transmissions succeed, let the transmission of item \<open>k\<close> fail with error \<open>e\<close>.
  Then the run still returns exactly \<open>N\<close> records; record \<open>k\<close> is
  \<open>{success: false, itemIndex: k, error: message of e}\<close>; every item whose transmission
  succeeds has its success record at its own position; the run in which item \<open>k\<close> does not
  fail returns the same records but for position \<open>k\<close>; and the body of every item, also those
  after \<open>k\<close>, is resolved and sent, in order, before the sender and the client are closed.
\<close>

theorem send_continue_on_failure:
  assumes "stringParameter h ''operation'' 0 = ''send''"
    and "continueOnFail h"
    and "newServiceBusClient b (stringParameter h ''connectionString'' 0) = Inr ()"
    and "createSender b (stringParameter h ''queueOrTopic'' 0) = Inr ()"
    and "senderClose b = Inr ()"
    and "clientClose b = Inr ()"
    and "k < length (getInputData h)"
    and "sendMessages b k \<lparr>body = jsonParameter h ''messageBody'' k\<rparr> = Inl e"
  shows "\<exists>out.
      snd (execute h b) = Inr [out]
    \<and> length out = length (getInputData h)
    \<and> out ! k = \<lparr>json = JObj [(''success'', JBool False),
                               (''itemIndex'', JNum (int k)),
                               (''error'', JStr (message e))]\<rparr>
    \<and> (\<forall>i<length (getInputData h).
          sendMessages b i \<lparr>body = jsonParameter h ''messageBody'' i\<rparr> = Inr () \<longrightarrow>
          out ! i = \<lparr>json = JObj [(''success'', JBool True),
                                    (''itemIndex'', JNum (int i)),
                                    (''messageSent'', jsonParameter h ''messageBody'' i)]\<rparr>)
    \<and> snd (execute h (b\<lparr>sendMessages := (sendMessages b)(k := \<lambda>m. Inr ())\<rparr>)) =
        Inr [out[k := \<lparr>json = JObj [(''success'', JBool True),
                                     (''itemIndex'', JNum (int k)),
                                     (''messageSent'', jsonParameter h ''messageBody'' k)]\<rparr>]]
    \<and> fst (execute h b) =
        [GetNodeParameter ''connectionString'' 0, GetNodeParameter ''queueOrTopic'' 0,
         GetNodeParameter ''subscriptionName'' 0, GetNodeParameter ''operation'' 0,
         NewServiceBusClient (stringParameter h ''connectionString'' 0),
         CreateSender (stringParameter h ''queueOrTopic'' 0)]
        @ concat (map (\<lambda>i. [GetNodeParameter ''messageBody'' i,
                             SendMessages \<lparr>body = jsonParameter h ''messageBody'' i\<rparr>])
                    [0..<length (getInputData h)])
        @ [SenderClose, ClientClose]"
proof -
  let ?n = "length (getInputData h)"
  let ?b' = "b\<lparr>sendMessages := (sendMessages b)(k := \<lambda>m. Inr ())\<rparr>"
  let ?out = "map (item_record h b) [0..<?n]"
  let ?ok = "success_record k (jsonParameter h ''messageBody'' k)"
  have run: "execute h b =
    (common_reads @ [NewServiceBusClient (stringParameter h ''connectionString'' 0),
               CreateSender (stringParameter h ''queueOrTopic'' 0)]
       @ concat (map (item_calls h) [0..<?n]) @ [SenderClose, ClientClose], Inr [?out])"
    using assms(1-6) by (rule execute_send_continue)
  have run': "execute h ?b' =
    (common_reads @ [NewServiceBusClient (stringParameter h ''connectionString'' 0),
               CreateSender (stringParameter h ''queueOrTopic'' 0)]
       @ concat (map (item_calls h) [0..<?n]) @ [SenderClose, ClientClose],
     Inr [map (item_record h ?b') [0..<?n]])"
    using assms(1-6) by (intro execute_send_continue) simp_all
  have "item_record h ?b' k = ?ok"
    by (simp add: item_record_def item_outcome_def)
  then have "item_record h ?b' = (item_record h b)(k := ?ok)"
    by (auto simp: fun_eq_iff item_record_other)
  then have upd: "map (item_record h ?b') [0..<?n] = ?out[k := ?ok]"
    using assms(7) by (simp add: map_upt_update)
  have 1: "snd (execute h b) = Inr [?out]"
    by (simp add: run)
  have 2: "length ?out = ?n"
    by simp
  have 3: "?out ! k = failure_record k e"
    using assms(7,8) by (simp add: item_record_failed item_outcome_def)
  have 4: "\<forall>i<?n. sendMessages b i \<lparr>body = jsonParameter h ''messageBody'' i\<rparr> = Inr () \<longrightarrow>
            ?out ! i = success_record i (jsonParameter h ''messageBody'' i)"
    by (simp add: item_record_def item_outcome_def)
  have 5: "snd (execute h ?b') = Inr [?out[k := ?ok]]"
    by (simp add: run' upd)
  have 6: "fst (execute h b) =
      common_reads @ [NewServiceBusClient (stringParameter h ''connectionString'' 0),
               CreateSender (stringParameter h ''queueOrTopic'' 0)]
       @ concat (map (item_calls h) [0..<?n]) @ [SenderClose, ClientClose]"
    by (simp add: run)
  have calls: "item_calls h = (\<lambda>i. [GetNodeParameter ''messageBody'' i,
                             SendMessages \<lparr>body = jsonParameter h ''messageBody'' i\<rparr>])"
    by (simp add: fun_eq_iff item_calls_def)
  show ?thesis
    apply (rule exI[of _ ?out])
    using 1 2 3 4 5 6
    unfolding calls common_reads_def success_record_def failure_record_def
    by simp
qed

theorem send_continue_on_failure_witness:
  "continueOnFail (example_host ''send'' [JStr ''a'', JStr ''b'', JStr ''c''] True)
   \<and> sendMessages (send_failing_bus 1 (Error ''timeout'')) 1 \<lparr>body = JStr ''b''\<rparr>
       = Inl (Error ''timeout'')
   \<and> (\<exists>out.
        snd (execute (example_host ''send'' [JStr ''a'', JStr ''b'', JStr ''c''] True)
               (send_failing_bus 1 (Error ''timeout''))) = Inr [out]
      \<and> length out = 3
      \<and> out ! 0 = \<lparr>json = JObj [(''success'', JBool True), (''itemIndex'', JNum 0),
                                 (''messageSent'', JStr ''a'')]\<rparr>
      \<and> out ! 1 = \<lparr>json = JObj [(''success'', JBool False), (''itemIndex'', JNum 1),
                                 (''error'', JStr ''timeout'')]\<rparr>
      \<and> out ! 2 = \<lparr>json = JObj [(''success'', JBool True), (''itemIndex'', JNum 2),
                                 (''messageSent'', JStr ''c'')]\<rparr>)"
proof -
  let ?h = "example_host ''send'' [JStr ''a'', JStr ''b'', JStr ''c''] True"
  let ?b = "send_failing_bus 1 (Error ''timeout'')"
  have hyps: "stringParameter ?h ''operation'' 0 = ''send''" "continueOnFail ?h"
    "newServiceBusClient ?b (stringParameter ?h ''connectionString'' 0) = Inr ()"
    "createSender ?b (stringParameter ?h ''queueOrTopic'' 0) = Inr ()"
    "senderClose ?b = Inr ()" "clientClose ?b = Inr ()"
    "1 < length (getInputData ?h)"
    "sendMessages ?b 1 \<lparr>body = jsonParameter ?h ''messageBody'' 1\<rparr> = Inl (Error ''timeout'')"
    by (simp_all add: example_host_def send_failing_bus_def reliable_bus_def)
  from send_continue_on_failure[OF hyps]
  obtain out where out: "snd (execute ?h ?b) = Inr [out]" "length out = length (getInputData ?h)"
    "out ! 1 = \<lparr>json = JObj [(''success'', JBool False), (''itemIndex'', JNum (int 1)),
                             (''error'', JStr (message (Error ''timeout'')))]\<rparr>"
    "\<forall>i<length (getInputData ?h).
          sendMessages ?b i \<lparr>body = jsonParameter ?h ''messageBody'' i\<rparr> = Inr () \<longrightarrow>
          out ! i = \<lparr>json = JObj [(''success'', JBool True),
                                    (''itemIndex'', JNum (int i)),
                                    (''messageSent'', jsonParameter ?h ''messageBody'' i)]\<rparr>"
    by blast
  have len: "length (getInputData ?h) = 3"
    by (simp add: example_host_def)
  have "out ! 0 = \<lparr>json = JObj [(''success'', JBool True), (''itemIndex'', JNum 0),
                                 (''messageSent'', JStr ''a'')]\<rparr>"
    using out(4)[rule_format, of 0]
    by (simp add: example_host_def send_failing_bus_def reliable_bus_def)
  moreover have "out ! 2 = \<lparr>json = JObj [(''success'', JBool True), (''itemIndex'', JNum 2),
                                 (''messageSent'', JStr ''c'')]\<rparr>"
    using out(4)[rule_format, of 2]
    by (simp add: example_host_def send_failing_bus_def reliable_bus_def)
  ultimately show ?thesis
    using out(1,2,3) hyps(2,8) len
    by (simp add: example_host_def)
qed

text \<open>
  Claim C3. With continue-on-failure disabled, let item \<open>k\<close> be the first whose transmission
  fails, with error \<open>e\<close>. The run then fails as a whole, no item after \<open>k\<close> is resolved or
  sent, the sender is not closed and the client is. The inner \<open>catch\<close> throws a
  \<open>NodeOperationError\<close> that carries \<open>itemIndex = k\<close>, but the outer \<open>catch\<close> receives it
  and throws a new \<open>NodeOperationError\<close> built from a string, without options: the error that
  leaves \<open>execute\<close> carries no item index.
\<close>

theorem send_abort_drops_item_index:
  assumes "stringParameter h ''operation'' 0 = ''send''"
    and "\<not> continueOnFail h"
    and "newServiceBusClient b (stringParameter h ''connectionString'' 0) = Inr ()"
    and "createSender b (stringParameter h ''queueOrTopic'' 0) = Inr ()"
    and "clientClose b = Inr ()"
    and "k < length (getInputData h)"
    and "\<forall>j<k. sendMessages b j \<lparr>body = jsonParameter h ''messageBody'' j\<rparr> = Inr ()"
    and "sendMessages b k \<lparr>body = jsonParameter h ''messageBody'' k\<rparr> = Inl e"
  shows "\<exists>err.
      execute h b =
       ([GetNodeParameter ''connectionString'' 0, GetNodeParameter ''queueOrTopic'' 0,
         GetNodeParameter ''subscriptionName'' 0, GetNodeParameter ''operation'' 0,
         NewServiceBusClient (stringParameter h ''connectionString'' 0),
         CreateSender (stringParameter h ''queueOrTopic'' 0)]
        @ concat (map (\<lambda>i. [GetNodeParameter ''messageBody'' i,
                             SendMessages \<lparr>body = jsonParameter h ''messageBody'' i\<rparr>])
                    [0..<Suc k])
        @ [ClientClose],
        Inl err)
    \<and> err = NodeOperationError (Error (operation_error_text ''send'' e)) None
    \<and> context_itemIndex err = None"
proof -
  have calls: "item_calls h = (\<lambda>i. [GetNodeParameter ''messageBody'' i,
                             SendMessages \<lparr>body = jsonParameter h ''messageBody'' i\<rparr>])"
    by (simp add: fun_eq_iff item_calls_def)
  have "execute h b =
    (common_reads @ [NewServiceBusClient (stringParameter h ''connectionString'' 0),
               CreateSender (stringParameter h ''queueOrTopic'' 0)]
       @ concat (map (item_calls h) [0..<Suc k]) @ [ClientClose],
     case clientClose b of
       Inl e' \<Rightarrow> Inl e'
     | Inr u \<Rightarrow> Inl (NodeOperationError (Error (operation_error_text ''send'' e)) None))"
    using assms(1-4,6-8) by (intro execute_send_abort) (simp_all add: item_outcome_def)
  then show ?thesis
    using assms(5) unfolding calls by (simp add: common_reads_def)
qed

theorem send_abort_drops_item_index_witness:
  "\<not> continueOnFail (example_host ''send'' [JStr ''a'', JStr ''b'', JStr ''c''] False)
   \<and> sendMessages (send_failing_bus 1 (Error ''timeout'')) 1 \<lparr>body = JStr ''b''\<rparr>
       = Inl (Error ''timeout'')
   \<and> execute (example_host ''send'' [JStr ''a'', JStr ''b'', JStr ''c''] False)
        (send_failing_bus 1 (Error ''timeout'')) =
      ([GetNodeParameter ''connectionString'' 0, GetNodeParameter ''queueOrTopic'' 0,
        GetNodeParameter ''subscriptionName'' 0, GetNodeParameter ''operation'' 0,
        NewServiceBusClient ''Endpoint=sb://example/'', CreateSender ''orders'',
        GetNodeParameter ''messageBody'' 0, SendMessages \<lparr>body = JStr ''a''\<rparr>,
        GetNodeParameter ''messageBody'' 1, SendMessages \<lparr>body = JStr ''b''\<rparr>,
        ClientClose],
       Inl (NodeOperationError (Error (operation_error_text ''send'' (Error ''timeout''))) None))
   \<and> context_itemIndex
        (NodeOperationError (Error (operation_error_text ''send'' (Error ''timeout''))) None)
       = None"
  using send_abort_drops_item_index
    [of "example_host ''send'' [JStr ''a'', JStr ''b'', JStr ''c''] False"
        "send_failing_bus 1 (Error ''timeout'')" 1 "Error ''timeout''"]
  by (simp add: example_host_def send_failing_bus_def reliable_bus_def upt_conv_Cons)

section \<open>The handles\<close>

lemma handle_call_send_items: "filter handle_call (fst (send_items h b 0 rd)) = []"
proof -
  obtain K where "fst (send_items h b 0 rd) = concat (map (item_calls h) [0..<K])"
    using send_items_calls[of 0 h b rd] by auto
  then show ?thesis
    by (simp add: filter_concat item_calls_def comp_def)
qed

lemma handle_call_post_process_all:
  "filter handle_call (fst (post_process_all b pp msgs)) = []"
  by (induction msgs)
    (auto simp: post_process_eq post_process_call_def bind_io_def ret_def split: sum.splits)

lemma handle_calls_send_branch:
  "\<exists>cl. (cl = [] \<or> cl = [SenderClose]) \<and>
     filter handle_call (fst (send_branch h b q)) = CreateSender q # cl \<and>
     ((\<exists>rd. snd (send_branch h b q) = Inr rd) \<longrightarrow> cl = [SenderClose]) \<and>
     ((\<exists>e. snd (send_items h b 0 []) = Inl e) \<longrightarrow> cl = [])"
  by (auto simp: send_branch_eq handle_call_send_items split: sum.splits)

lemma handle_calls_receive_branch:
  "\<exists>cl. (cl = [] \<or> cl = [ReceiverClose]) \<and>
     filter handle_call (fst (receive_branch h b q sub)) =
       CreateReceiver q (subscription_of sub) # cl \<and>
     ((\<exists>rd. snd (receive_branch h b q sub) = Inr rd) \<longrightarrow> cl = [ReceiverClose])"
  by (auto simp: receive_branch_eq receive_reads_def handle_call_post_process_all
      split: sum.splits)

text \<open>
  Claim C4, as the code has it. Once the client is open, the last call of the run is the
  closing of the client, and the calls that open or close a handle are: the opening of the
  client, then possibly the creation of the sender or of the receiver and possibly its
  closing, then the closing of the client. So the client is closed exactly once on every exit
  path, after every other call, and the sender or receiver at most once; when \<open>execute\<close>
  returns normally the sender or receiver it created has been closed; when the send loop
  aborts on a failed item, the sender is created and \<open>execute\<close> does not close it (only the
  client is released in the \<open>finally\<close> block).
\<close>

theorem handles_closed_at_most_once:
  assumes "newServiceBusClient b (stringParameter h ''connectionString'' 0) = Inr ()"
  shows "last (fst (execute h b)) = ClientClose
    \<and> (\<exists>mid.
      filter handle_call (fst (execute h b)) =
        NewServiceBusClient (stringParameter h ''connectionString'' 0) # mid @ [ClientClose]
    \<and> (mid = []
       \<or> mid = [CreateSender (stringParameter h ''queueOrTopic'' 0)]
       \<or> mid = [CreateSender (stringParameter h ''queueOrTopic'' 0), SenderClose]
       \<or> mid = [CreateReceiver (stringParameter h ''queueOrTopic'' 0)
                  (if stringParameter h ''subscriptionName'' 0 \<noteq> []
                   then Some (stringParameter h ''subscriptionName'' 0) else None)]
       \<or> mid = [CreateReceiver (stringParameter h ''queueOrTopic'' 0)
                  (if stringParameter h ''subscriptionName'' 0 \<noteq> []
                   then Some (stringParameter h ''subscriptionName'' 0) else None),
                ReceiverClose])
    \<and> ((\<exists>out. snd (execute h b) = Inr out) \<longrightarrow>
         mid = []
       \<or> mid = [CreateSender (stringParameter h ''queueOrTopic'' 0), SenderClose]
       \<or> mid = [CreateReceiver (stringParameter h ''queueOrTopic'' 0)
                  (if stringParameter h ''subscriptionName'' 0 \<noteq> []
                   then Some (stringParameter h ''subscriptionName'' 0) else None),
                ReceiverClose])
    \<and> (stringParameter h ''operation'' 0 = ''send'' \<and> \<not> continueOnFail h \<and>
        (\<exists>k<length (getInputData h). \<exists>e.
            sendMessages b k \<lparr>body = jsonParameter h ''messageBody'' k\<rparr> = Inl e) \<longrightarrow>
         mid = [CreateSender (stringParameter h ''queueOrTopic'' 0)]))"
proof -
  let ?q = "stringParameter h ''queueOrTopic'' 0"
  let ?sub = "stringParameter h ''subscriptionName'' 0"
  let ?mid = "filter handle_call (fst (try_body h b))"
  have trace: "filter handle_call (fst (execute h b)) =
      NewServiceBusClient (stringParameter h ''connectionString'' 0) # ?mid @ [ClientClose]"
    using assms by (simp add: execute_eq common_reads_def)
  have ok: "(\<exists>out. snd (execute h b) = Inr out) \<longrightarrow> (\<exists>rd. snd (try_body h b) = Inr rd)"
    using assms by (auto simp: execute_eq split: sum.splits)
  consider (send) "stringParameter h ''operation'' 0 = ''send''"
    | (receive) "stringParameter h ''operation'' 0 = ''receive''"
    | (other) "stringParameter h ''operation'' 0 \<noteq> ''send''"
        "stringParameter h ''operation'' 0 \<noteq> ''receive''"
    by blast
  then have shape:
    "(?mid = [] \<or> ?mid = [CreateSender ?q] \<or> ?mid = [CreateSender ?q, SenderClose]
       \<or> ?mid = [CreateReceiver ?q (subscription_of ?sub)]
       \<or> ?mid = [CreateReceiver ?q (subscription_of ?sub), ReceiverClose])
     \<and> ((\<exists>rd. snd (try_body h b) = Inr rd) \<longrightarrow>
          ?mid = [] \<or> ?mid = [CreateSender ?q, SenderClose]
        \<or> ?mid = [CreateReceiver ?q (subscription_of ?sub), ReceiverClose])
     \<and> (stringParameter h ''operation'' 0 = ''send''
          \<and> (\<exists>e. snd (send_items h b 0 []) = Inl e) \<longrightarrow>
          ?mid = [CreateSender ?q])"
  proof cases
    case send
    then show ?thesis
      using handle_calls_send_branch[of h b ?q] by (auto simp: try_body_def)
  next
    case receive
    then show ?thesis
      using handle_calls_receive_branch[of h b ?q ?sub] by (auto simp: try_body_def)
  next
    case other
    then show ?thesis
      by (simp add: try_body_def ret_def)
  qed
  have abort: "\<not> continueOnFail h \<and>
        (\<exists>k<length (getInputData h). \<exists>e.
            sendMessages b k \<lparr>body = jsonParameter h ''messageBody'' k\<rparr> = Inl e) \<longrightarrow>
        (\<exists>e. snd (send_items h b 0 []) = Inl e)"
    using send_items_fails[of h _ b _ "[]"] by (auto simp: item_outcome_def)
  have final: "last (fst (execute h b)) = ClientClose"
    using assms by (simp add: execute_eq)
  show ?thesis
  proof (rule conjI[OF final])
    show "\<exists>mid.
      filter handle_call (fst (execute h b)) =
        NewServiceBusClient (stringParameter h ''connectionString'' 0) # mid @ [ClientClose]
    \<and> (mid = []
       \<or> mid = [CreateSender ?q]
       \<or> mid = [CreateSender ?q, SenderClose]
       \<or> mid = [CreateReceiver ?q (if ?sub \<noteq> [] then Some ?sub else None)]
       \<or> mid = [CreateReceiver ?q (if ?sub \<noteq> [] then Some ?sub else None), ReceiverClose])
    \<and> ((\<exists>out. snd (execute h b) = Inr out) \<longrightarrow>
         mid = []
       \<or> mid = [CreateSender ?q, SenderClose]
       \<or> mid = [CreateReceiver ?q (if ?sub \<noteq> [] then Some ?sub else None), ReceiverClose])
    \<and> (stringParameter h ''operation'' 0 = ''send'' \<and> \<not> continueOnFail h \<and>
        (\<exists>k<length (getInputData h). \<exists>e.
            sendMessages b k \<lparr>body = jsonParameter h ''messageBody'' k\<rparr> = Inl e) \<longrightarrow>
         mid = [CreateSender ?q])"
      apply (rule exI[of _ ?mid])
      using trace ok shape abort unfolding subscription_of_def by blast
  qed
qed

theorem handles_closed_at_most_once_witness:
  "newServiceBusClient (send_failing_bus 1 (Error ''timeout'')) ''Endpoint=sb://example/'' = Inr ()
   \<and> last (fst (execute (example_host ''send'' [JStr ''a'', JStr ''b'', JStr ''c''] False)
                 (send_failing_bus 1 (Error ''timeout'')))) = ClientClose
   \<and> filter handle_call
        (fst (execute (example_host ''send'' [JStr ''a'', JStr ''b'', JStr ''c''] False)
                (send_failing_bus 1 (Error ''timeout'')))) =
      [NewServiceBusClient ''Endpoint=sb://example/'', CreateSender ''orders'', ClientClose]"
proof -
  let ?h = "example_host ''send'' [JStr ''a'', JStr ''b'', JStr ''c''] False"
  let ?b = "send_failing_bus 1 (Error ''timeout'')"
  have ok: "newServiceBusClient ?b (stringParameter ?h ''connectionString'' 0) = Inr ()"
    by (simp add: example_host_def send_failing_bus_def reliable_bus_def)
  have fails: "stringParameter ?h ''operation'' 0 = ''send'' \<and> \<not> continueOnFail ?h \<and>
        (\<exists>k<length (getInputData ?h). \<exists>e.
            sendMessages ?b k \<lparr>body = jsonParameter ?h ''messageBody'' k\<rparr> = Inl e)"
    by (auto simp: example_host_def send_failing_bus_def reliable_bus_def intro!: exI[of _ 1])
  from handles_closed_at_most_once[OF ok] fails
  have "last (fst (execute ?h ?b)) = ClientClose
    \<and> filter handle_call (fst (execute ?h ?b)) =
      [NewServiceBusClient (stringParameter ?h ''connectionString'' 0),
       CreateSender (stringParameter ?h ''queueOrTopic'' 0), ClientClose]"
    by auto
  then show ?thesis
    by (simp add: example_host_def send_failing_bus_def reliable_bus_def)
qed

theorem sender_left_open_on_abort:
  "createSender (send_failing_bus 1 (Error ''timeout'')) ''orders'' = Inr ()
   \<and> fst (execute (example_host ''send'' [JStr ''a'', JStr ''b'', JStr ''c''] False)
           (send_failing_bus 1 (Error ''timeout''))) =
      [GetNodeParameter ''connectionString'' 0, GetNodeParameter ''queueOrTopic'' 0,
       GetNodeParameter ''subscriptionName'' 0, GetNodeParameter ''operation'' 0,
       NewServiceBusClient ''Endpoint=sb://example/'', CreateSender ''orders'',
       GetNodeParameter ''messageBody'' 0, SendMessages \<lparr>body = JStr ''a''\<rparr>,
       GetNodeParameter ''messageBody'' 1, SendMessages \<lparr>body = JStr ''b''\<rparr>,
       ClientClose]
   \<and> count_list
        (fst (execute (example_host ''send'' [JStr ''a'', JStr ''b'', JStr ''c''] False)
                (send_failing_bus 1 (Error ''timeout'')))) SenderClose = 0"
proof -
  let ?h = "example_host ''send'' [JStr ''a'', JStr ''b'', JStr ''c''] False"
  let ?b = "send_failing_bus 1 (Error ''timeout'')"
  have "execute ?h ?b =
    (common_reads @ [NewServiceBusClient (stringParameter ?h ''connectionString'' 0),
               CreateSender (stringParameter ?h ''queueOrTopic'' 0)]
       @ concat (map (item_calls ?h) [0..<Suc 1]) @ [ClientClose],
     case clientClose ?b of
       Inl e' \<Rightarrow> Inl e'
     | Inr u \<Rightarrow> Inl (NodeOperationError
                      (Error (operation_error_text ''send'' (Error ''timeout''))) None))"
    by (intro execute_send_abort)
      (simp_all add: example_host_def send_failing_bus_def reliable_bus_def item_outcome_def)
  then show ?thesis
    by (simp add: example_host_def send_failing_bus_def reliable_bus_def common_reads_def
        item_calls_def upt_conv_Cons)
qed

text \<open>
  Claim C5, as the code has it. The release of the client is the \<open>finally\<close> block, and it is
  not guarded: when it throws \<open>e'\<close>, that error is what \<open>execute\<close> propagates, raw, whatever
  the \<open>try\<close> and \<open>catch\<close> blocks produced before; an earlier error is lost. The error of
  the body, wrapped by the outer \<open>catch\<close>, is propagated when the release succeeds.
\<close>

theorem release_failure_replaces_error:
  assumes "newServiceBusClient b (stringParameter h ''connectionString'' 0) = Inr ()"
  shows "(clientClose b = Inl e' \<longrightarrow> snd (execute h b) = Inl e')
     \<and> (clientClose b = Inr () \<longrightarrow>
          snd (execute h b) =
            (case snd (try_body h b) of
               Inl e \<Rightarrow>
                 Inl (NodeOperationError
                        (Error (operation_error_text (stringParameter h ''operation'' 0) e)) None)
             | Inr returnData \<Rightarrow> Inr [returnData]))"
  using assms by (simp add: execute_eq)

theorem release_failure_replaces_error_witness:
  "clientClose ((send_failing_bus 0 (Error ''boom''))\<lparr>clientClose := Inl (Error ''close failed'')\<rparr>)
     = Inl (Error ''close failed'')
   \<and> snd (execute (example_host ''send'' [JStr ''a''] False)
            ((send_failing_bus 0 (Error ''boom''))\<lparr>clientClose := Inl (Error ''close failed'')\<rparr>))
     = Inl (Error ''close failed'')"
  using release_failure_replaces_error
    [of "(send_failing_bus 0 (Error ''boom''))\<lparr>clientClose := Inl (Error ''close failed'')\<rparr>"
        "example_host ''send'' [JStr ''a''] False" "Error ''close failed''"]
  by (simp add: example_host_def send_failing_bus_def reliable_bus_def)

theorem release_failure_masks_original:
  "snd (execute (example_host ''send'' [JStr ''a''] False) (send_failing_bus 0 (Error ''boom'')))
     = Inl (NodeOperationError (Error (operation_error_text ''send'' (Error ''boom''))) None)
   \<and> snd (execute (example_host ''send'' [JStr ''a''] False)
            ((send_failing_bus 0 (Error ''boom''))\<lparr>clientClose := Inl (Error ''close failed'')\<rparr>))
     = Inl (Error ''close failed'')"
proof -
  let ?h = "example_host ''send'' [JStr ''a''] False"
  let ?b = "send_failing_bus 0 (Error ''boom'')"
  let ?b' = "?b\<lparr>clientClose := Inl (Error ''close failed'')\<rparr>"
  have "execute ?h ?b =
    (common_reads @ [NewServiceBusClient (stringParameter ?h ''connectionString'' 0),
               CreateSender (stringParameter ?h ''queueOrTopic'' 0)]
       @ concat (map (item_calls ?h) [0..<Suc 0]) @ [ClientClose],
     case clientClose ?b of
       Inl e' \<Rightarrow> Inl e'
     | Inr u \<Rightarrow> Inl (NodeOperationError
                      (Error (operation_error_text ''send'' (Error ''boom''))) None))"
    by (intro execute_send_abort)
      (simp_all add: example_host_def send_failing_bus_def reliable_bus_def item_outcome_def)
  moreover have "execute ?h ?b' =
    (common_reads @ [NewServiceBusClient (stringParameter ?h ''connectionString'' 0),
               CreateSender (stringParameter ?h ''queueOrTopic'' 0)]
       @ concat (map (item_calls ?h) [0..<Suc 0]) @ [ClientClose],
     case clientClose ?b' of
       Inl e' \<Rightarrow> Inl e'
     | Inr u \<Rightarrow> Inl (NodeOperationError
                      (Error (operation_error_text ''send'' (Error ''boom''))) None))"
    by (intro execute_send_abort)
      (simp_all add: example_host_def send_failing_bus_def reliable_bus_def item_outcome_def)
  ultimately show ?thesis
    by (simp add: send_failing_bus_def reliable_bus_def)
qed

section \<open>Receive\<close>

text \<open>
  Claim C6. Every receive run that returns normally, in either mode, returns exactly one
  record, \<open>{success: true, operation: "receive", queueOrTopic, subscriptionName,
  messagesReceived}\<close>, where \<open>messagesReceived\<close> lists the bodies of the messages the fetch of
  the configured mode returned, in the order it returned them (none when it returned none).
  The destination name is under the key \<open>queueOrTopic\<close>.
\<close>

theorem receive_result_record:
  assumes "stringParameter h ''operation'' 0 = ''receive''"
    and "snd (execute h b) = Inr out"
  shows "\<exists>messages.
      (if stringParameter h ''receiveMode'' 0 = ''peek''
       then peekMessages b (numberParameter h ''maxMessages'' 0)
       else receiveMessages b (numberParameter h ''maxMessages'' 0)
              (numberParameter h ''maxWaitTime'' 0)) = Inr messages
    \<and> out = [[\<lparr>json = JObj [(''success'', JBool True),
                   (''operation'', JStr ''receive''),
                   (''queueOrTopic'', JStr (stringParameter h ''queueOrTopic'' 0)),
                   (''subscriptionName'', JStr (stringParameter h ''subscriptionName'' 0)),
                   (''messagesReceived'', JArr (map body messages))]\<rparr>]]"
  using assms
  by (auto simp: execute_eq try_body_def receive_branch_eq fetch_def receive_record_def
      split: sum.splits if_splits)

theorem receive_result_record_witness:
  "receiveMessages (reliable_bus []) 5 100 = Inr []
   \<and> snd (execute (receive_host [] ''receiveAndComplete'' ''complete'') (reliable_bus [])) =
     Inr [[\<lparr>json = JObj [(''success'', JBool True), (''operation'', JStr ''receive''),
                         (''queueOrTopic'', JStr ''events''), (''subscriptionName'', JStr []),
                         (''messagesReceived'', JArr [])]\<rparr>]]
   \<and> snd (execute (receive_host ''audit'' ''peek'' ''complete'')
            (reliable_bus [\<lparr>body = JStr ''m1'', messageId = ''1''\<rparr>,
                           \<lparr>body = JNum 2, messageId = ''2''\<rparr>])) =
     Inr [[\<lparr>json = JObj [(''success'', JBool True), (''operation'', JStr ''receive''),
                         (''queueOrTopic'', JStr ''events''),
                         (''subscriptionName'', JStr ''audit''),
                         (''messagesReceived'', JArr [JStr ''m1'', JNum 2])]\<rparr>]]"
proof -
  let ?h = "receive_host [] ''receiveAndComplete'' ''complete''"
  let ?b = "reliable_bus []"
  let ?h' = "receive_host ''audit'' ''peek'' ''complete''"
  let ?b' = "reliable_bus [\<lparr>body = JStr ''m1'', messageId = ''1''\<rparr>,
                           \<lparr>body = JNum 2, messageId = ''2''\<rparr>]"
  have op: "stringParameter ?h ''operation'' 0 = ''receive''"
    "stringParameter ?h' ''operation'' 0 = ''receive''"
    by (simp_all add: receive_host_def)
  obtain out where out: "snd (execute ?h ?b) = Inr out"
    by (simp add: execute_eq try_body_def receive_branch_eq fetch_def
        receive_host_def reliable_bus_def ret_def)
  obtain out' where out': "snd (execute ?h' ?b') = Inr out'"
    by (simp add: execute_eq try_body_def receive_branch_eq fetch_def
        receive_host_def reliable_bus_def)
  show ?thesis
    using receive_result_record[OF op(1) out] receive_result_record[OF op(2) out'] out out'
    by (auto simp: receive_host_def reliable_bus_def)
qed

text \<open>
  Claim C7. In a receive run whose client opens, exactly one receiver is opened, in either
  mode: on the destination and the subscription when the subscription name is not empty, on
  the destination alone when it is empty.
\<close>

theorem receiver_subscription_qualified:
  assumes "stringParameter h ''operation'' 0 = ''receive''"
    and "newServiceBusClient b (stringParameter h ''connectionString'' 0) = Inr ()"
  shows "filter is_CreateReceiver (fst (execute h b)) =
     [CreateReceiver (stringParameter h ''queueOrTopic'' 0)
        (if stringParameter h ''subscriptionName'' 0 \<noteq> []
         then Some (stringParameter h ''subscriptionName'' 0) else None)]"
proof -
  have "filter is_CreateReceiver (fst (execute h b))
      = filter is_CreateReceiver (filter handle_call (fst (execute h b)))"
  proof -
    have "\<And>ev. is_CreateReceiver ev \<Longrightarrow> handle_call ev"
      by (case_tac ev) simp_all
    then show ?thesis
      by (auto intro!: filter_cong)
  qed
  moreover obtain cl where "cl = [] \<or> cl = [ReceiverClose]"
    "filter handle_call (fst (receive_branch h b (stringParameter h ''queueOrTopic'' 0)
         (stringParameter h ''subscriptionName'' 0))) =
       CreateReceiver (stringParameter h ''queueOrTopic'' 0)
         (subscription_of (stringParameter h ''subscriptionName'' 0)) # cl"
    using handle_calls_receive_branch[of h b "stringParameter h ''queueOrTopic'' 0"
        "stringParameter h ''subscriptionName'' 0"] by blast
  ultimately show ?thesis
    using assms by (auto simp: execute_eq try_body_def common_reads_def subscription_of_def)
qed

theorem receiver_subscription_qualified_witness:
  "filter is_CreateReceiver
     (fst (execute (receive_host ''audit'' ''peek'' ''complete'') (reliable_bus []))) =
     [CreateReceiver ''events'' (Some ''audit'')]
   \<and> filter is_CreateReceiver
     (fst (execute (receive_host [] ''receiveAndComplete'' ''complete'') (reliable_bus []))) =
     [CreateReceiver ''events'' None]"
  using receiver_subscription_qualified
      [of "receive_host ''audit'' ''peek'' ''complete''" "reliable_bus []"]
    receiver_subscription_qualified
      [of "receive_host [] ''receiveAndComplete'' ''complete''" "reliable_bus []"]
  by (simp add: receive_host_def reliable_bus_def)








section \<open>Other operations, and the parameters\<close>

text \<open>
  Claim C9, as the code has it. When the operation is neither \<open>send\<close> nor \<open>receive\<close>,
  the run reads the four common parameters, opens the client and, if it opened, closes it,
  and makes no other call. \<open>execute\<close> raises no error of its own: when opening and closing
  the client succeed it returns the batch holding no record; when opening the client throws,
  or else closing it does, that error is what \<open>execute\<close> propagates.
\<close>

theorem unknown_operation_no_op:
  assumes "stringParameter h ''operation'' 0 \<noteq> ''send''"
    and "stringParameter h ''operation'' 0 \<noteq> ''receive''"
  shows "execute h b =
     ([GetNodeParameter ''connectionString'' 0, GetNodeParameter ''queueOrTopic'' 0,
       GetNodeParameter ''subscriptionName'' 0, GetNodeParameter ''operation'' 0,
       NewServiceBusClient (stringParameter h ''connectionString'' 0)]
      @ (case newServiceBusClient b (stringParameter h ''connectionString'' 0) of
           Inl e \<Rightarrow> [] | Inr u \<Rightarrow> [ClientClose]),
      case newServiceBusClient b (stringParameter h ''connectionString'' 0) of
        Inl e \<Rightarrow> Inl e
      | Inr u \<Rightarrow> (case clientClose b of Inl e \<Rightarrow> Inl e | Inr u \<Rightarrow> Inr [[]]))"
  using assms
  by (simp add: execute_eq try_body_def common_reads_def ret_def split: sum.splits)

theorem unknown_operation_no_op_witness:
  "execute (example_host ''purge'' [JStr ''a''] False) (reliable_bus []) =
     ([GetNodeParameter ''connectionString'' 0, GetNodeParameter ''queueOrTopic'' 0,
       GetNodeParameter ''subscriptionName'' 0, GetNodeParameter ''operation'' 0,
       NewServiceBusClient ''Endpoint=sb://example/'', ClientClose],
      Inr [[]])"
  using unknown_operation_no_op [of "example_host ''purge'' [JStr ''a''] False" "reliable_bus []"]
  by (simp add: example_host_def reliable_bus_def)

theorem unknown_operation_close_fails:
  "stringParameter (example_host ''purge'' [JStr ''a''] False) ''operation'' 0 = ''purge''
   \<and> execute (example_host ''purge'' [JStr ''a''] False)
       ((reliable_bus [])\<lparr>clientClose := Inl (Error ''close failed'')\<rparr>) =
     ([GetNodeParameter ''connectionString'' 0, GetNodeParameter ''queueOrTopic'' 0,
       GetNodeParameter ''subscriptionName'' 0, GetNodeParameter ''operation'' 0,
       NewServiceBusClient ''Endpoint=sb://example/'', ClientClose],
      Inl (Error ''close failed''))"
  by (simp add: execute_eq try_body_def common_reads_def ret_def example_host_def
      reliable_bus_def)






end
